theory Spec2Isabelle
  imports Complex_Main
begin

section \<open>Python strings\<close>

text \<open>
  A Python \<open>str\<close> is a sequence of Unicode code points, and \<open>len\<close> counts code points.
  A code point is a natural number here and a string a list of them; \<open>py\<close> writes an
  ASCII literal.
\<close>

type_synonym codepoint = nat
type_synonym pystr = "codepoint list"

definition cp :: "char \<Rightarrow> codepoint" where
  "cp c = of_char c"

definition py :: "string \<Rightarrow> pystr" where
  "py s = map cp s"

text \<open>
  The character predicates \<open>str.isspace\<close>, \<open>str.isdigit\<close>, \<open>str.isalpha\<close> and
  \<open>str.lower\<close> read the Unicode database of the Python runtime, which is no part of the
  repository. On ASCII their values are fixed and written out; beyond ASCII the database
  is a parameter of the model. \<open>str.lower\<close> is taken on the whole string there, since
  Unicode lower-casing is not character-wise (final sigma, one-to-many mappings).
\<close>

record unicode_db =
  db_isspace :: "codepoint \<Rightarrow> bool"
  db_isdigit :: "codepoint \<Rightarrow> bool"
  db_isalpha :: "codepoint \<Rightarrow> bool"
  db_lower :: "pystr \<Rightarrow> pystr"

definition isspace :: "unicode_db \<Rightarrow> codepoint \<Rightarrow> bool" where
  "isspace U c =
     (if c < 128 then (9 \<le> c \<and> c \<le> 13) \<or> (28 \<le> c \<and> c \<le> 32) else db_isspace U c)"

definition isdigit :: "unicode_db \<Rightarrow> codepoint \<Rightarrow> bool" where
  "isdigit U c = (if c < 128 then 48 \<le> c \<and> c \<le> 57 else db_isdigit U c)"

definition isalpha :: "unicode_db \<Rightarrow> codepoint \<Rightarrow> bool" where
  "isalpha U c =
     (if c < 128 then (65 \<le> c \<and> c \<le> 90) \<or> (97 \<le> c \<and> c \<le> 122) else db_isalpha U c)"

definition ascii_lower :: "codepoint \<Rightarrow> codepoint" where
  "ascii_lower c = (if 65 \<le> c \<and> c \<le> 90 then c + 32 else c)"

definition lower :: "unicode_db \<Rightarrow> pystr \<Rightarrow> pystr" where
  "lower U s = (if list_all (\<lambda>c. c < 128) s then map ascii_lower s else db_lower U s)"

text \<open>The database of a runtime that knows ASCII only; it instantiates the parameter.\<close>

definition ascii_db :: unicode_db where
  "ascii_db = \<lparr>db_isspace = (\<lambda>c. False), db_isdigit = (\<lambda>c. False),
                db_isalpha = (\<lambda>c. False), db_lower = (\<lambda>s. s)\<rparr>"

text \<open>\<open>s.isspace()\<close>: at least one character, and all of them whitespace.\<close>

definition str_isspace :: "unicode_db \<Rightarrow> pystr \<Rightarrow> bool" where
  "str_isspace U s = (s \<noteq> [] \<and> list_all (isspace U) s)"

text \<open>
  \<open>s.replace(old, new)\<close> for a one-character \<open>old\<close>, the only use the repository makes
  of it: every occurrence is replaced, left to right.
\<close>

definition str_replace :: "codepoint \<Rightarrow> pystr \<Rightarrow> pystr \<Rightarrow> pystr" where
  "str_replace old new s = concat (map (\<lambda>c. if c = old then new else [c]) s)"

text \<open>
  \<open>s.split()\<close> without arguments: the maximal runs of non-whitespace characters, in
  order. The second argument is the word being read.
\<close>

fun split_from :: "unicode_db \<Rightarrow> pystr \<Rightarrow> pystr \<Rightarrow> pystr list" where
  "split_from U w [] = (if w = [] then [] else [w])"
| "split_from U w (c # cs) =
     (if isspace U c then (if w = [] then split_from U [] cs else w # split_from U [] cs)
      else split_from U (w @ [c]) cs)"

definition str_split :: "unicode_db \<Rightarrow> pystr \<Rightarrow> pystr list" where
  "str_split U s = split_from U [] s"

fun str_join :: "pystr \<Rightarrow> pystr list \<Rightarrow> pystr" where
  "str_join sep [] = []"
| "str_join sep [w] = w"
| "str_join sep (w # v # ws) = w @ sep @ str_join sep (v # ws)"

definition str_strip :: "unicode_db \<Rightarrow> pystr \<Rightarrow> pystr" where
  "str_strip U s = rev (dropWhile (isspace U) (rev (dropWhile (isspace U) s)))"

definition endswith :: "pystr \<Rightarrow> pystr \<Rightarrow> bool" where
  "endswith s p = (length p \<le> length s \<and> drop (length s - length p) s = p)"

definition startswith :: "pystr \<Rightarrow> pystr \<Rightarrow> bool" where
  "startswith s p = (take (length p) s = p)"

text \<open>\<open>p in s\<close> for strings: \<open>p\<close> occurs in \<open>s\<close> as a contiguous block.\<close>

fun str_contains :: "pystr \<Rightarrow> pystr \<Rightarrow> bool" where
  "str_contains p [] = (p = [])"
| "str_contains p (c # cs) = (take (length p) (c # cs) = p \<or> str_contains p cs)"


section \<open>math_solver.py: the preprocessing of solve_equation\<close>

text \<open>
  Lines 19 to 25 of \<open>solve_equation\<close> rewrite the equation string before it is handed to
  the symbolic parser, one assignment after the other:
  \<^verbatim>\<open>
  equation_str = equation_str.replace('x', '*x')
  equation_str = equation_str.replace('X', '*X')
  equation_str = equation_str.replace('=', '-(') + ')'
  equation_str = equation_str.replace('^', '**')
  equation_str = ''.join(equation_str.split())
  \<close>
\<close>

definition insert_multiplication :: "pystr \<Rightarrow> pystr" where
  "insert_multiplication s =
     str_replace (cp CHR ''X'') (py ''*X'') (str_replace (cp CHR ''x'') (py ''*x'') s)"

definition equality_to_zero :: "pystr \<Rightarrow> pystr" where
  "equality_to_zero s = str_replace (cp CHR ''='') (py ''-('') s @ py '')''"

definition caret_to_power :: "pystr \<Rightarrow> pystr" where
  "caret_to_power s = str_replace (cp CHR ''^'') (py ''**'') s"

definition strip_whitespace :: "unicode_db \<Rightarrow> pystr \<Rightarrow> pystr" where
  "strip_whitespace U s = str_join [] (str_split U s)"

definition solve_equation_normalize :: "unicode_db \<Rightarrow> pystr \<Rightarrow> pystr" where
  "solve_equation_normalize U equation_str =
     (let s1 = insert_multiplication equation_str;
          s2 = equality_to_zero s1;
          s3 = caret_to_power s2
      in strip_whitespace U s3)"

text \<open>
  The inputs the first rewrite is written for (comment of line 19: \<open>2x -> 2*x\<close>): every
  \<open>x\<close> and \<open>X\<close> directly follows a digit, so that a multiplication is implied there.
  The flag tells whether the character before was a digit.
\<close>

fun x_follows_digit :: "bool \<Rightarrow> pystr \<Rightarrow> bool" where
  "x_follows_digit after_digit [] = True"
| "x_follows_digit after_digit (c # cs) =
     ((if c = cp CHR ''x'' \<or> c = cp CHR ''X'' then after_digit else True) \<and>
      x_follows_digit (48 \<le> c \<and> c \<le> 57) cs)"

definition implied_multiplication_only :: "pystr \<Rightarrow> bool" where
  "implied_multiplication_only s = x_follows_digit False s"

text \<open>Transforms (1), (3) and (4) alone, without the rewrite of the equality sign.\<close>

definition normalize_side :: "unicode_db \<Rightarrow> pystr \<Rightarrow> pystr" where
  "normalize_side U s = strip_whitespace U (caret_to_power (insert_multiplication s))"


section \<open>The classifier: determine_problem_type\<close>

datatype problem_type = Math | Text | Visual

datatype py_error = ZeroDivisionError | IndexError | ExternalError

text \<open>
  \<open>a / b\<close> on two \<open>int\<close>s raises on a zero divisor. The quotient is a float in Python;
  the classifier only compares it with \<open>0.5\<close>, and for operands below \<open>2 ^ 52\<close> the
  rounded quotient lies above \<open>0.5\<close> exactly when the exact one does, so the quotient is
  kept exact. The same holds for the products \<open>n * 0.5\<close> and \<open>n * 0.3\<close> compared with
  an integer count.
\<close>

definition py_truediv :: "nat \<Rightarrow> nat \<Rightarrow> py_error + real" where
  "py_truediv a b = (if b = 0 then Inl ZeroDivisionError else Inr (real a / real b))"

text \<open>\<open>_is_cjk\<close>: Han, Han extension A, Hangul syllables, Hiragana, Katakana.\<close>

definition is_cjk :: "codepoint \<Rightarrow> bool" where
  "is_cjk char =
     ((0x4E00 \<le> char \<and> char \<le> 0x9FFF) \<or>
      (0x3400 \<le> char \<and> char \<le> 0x4DBF) \<or>
      (0xAC00 \<le> char \<and> char \<le> 0xD7AF) \<or>
      (0x3040 \<le> char \<and> char \<le> 0x309F) \<or>
      (0x30A0 \<le> char \<and> char \<le> 0x30FF))"

text \<open>
  The counting loop of lines 31 to 37; the pair is
  \<open>(cjk_char_count, total_non_whitespace_chars)\<close>.
\<close>

fun cjk_scan :: "unicode_db \<Rightarrow> pystr \<Rightarrow> nat \<times> nat \<Rightarrow> nat \<times> nat" where
  "cjk_scan U [] (cjk, non_ws) = (cjk, non_ws)"
| "cjk_scan U (char_val # rest) (cjk, non_ws) =
     cjk_scan U rest
       (if \<not> isspace U char_val
        then (if is_cjk char_val then cjk + 1 else cjk, non_ws + 1)
        else (cjk, non_ws))"

definition cjk_char_count :: "unicode_db \<Rightarrow> pystr \<Rightarrow> nat" where
  "cjk_char_count U ocr_text = fst (cjk_scan U ocr_text (0, 0))"

definition total_non_whitespace_chars :: "unicode_db \<Rightarrow> pystr \<Rightarrow> nat" where
  "total_non_whitespace_chars U ocr_text = snd (cjk_scan U ocr_text (0, 0))"

text \<open>The degree sign, the at-sign, the colon and the dollar sign.\<close>

definition very_bad_chars :: "codepoint list" where
  "very_bad_chars = [0xB0, cp CHR ''@'', cp CHR '':'', cp CHR ''$'']"

definition has_very_bad_chars :: "pystr \<Rightarrow> bool" where
  "has_very_bad_chars t = list_ex (\<lambda>char. char \<in> set t) very_bad_chars"

text \<open>The list is written twice in the source, with the same entries both times.\<close>

definition question_starters :: "pystr list" where
  "question_starters = map py
     [''what'', ''who'', ''where'', ''when'', ''why'', ''how'', ''is'', ''are'', ''do'',
      ''does'', ''did'', ''was'', ''were'', ''can'', ''could'', ''will'', ''would'',
      ''should'', ''may'', ''might'', ''which'', ''list'', ''define'', ''explain'',
      ''describe'', ''calculate'', ''name'', ''tell'']"

text \<open>\<open>words[0] if words else ""\<close> for \<open>words = t.split()\<close>.\<close>

definition first_word_of :: "unicode_db \<Rightarrow> pystr \<Rightarrow> pystr" where
  "first_word_of U t = (case str_split U t of [] \<Rightarrow> [] | w # ws \<Rightarrow> w)"

definition ends_with_question_variant :: "pystr \<Rightarrow> bool" where
  "ends_with_question_variant t = (endswith t (py ''?'') \<or> endswith t (py ''?)''))"

definition is_question_like_despite_bad_chars :: "unicode_db \<Rightarrow> pystr \<Rightarrow> bool" where
  "is_question_like_despite_bad_chars U lower_ocr_text =
     (if ends_with_question_variant lower_ocr_text then True
      else first_word_of U lower_ocr_text \<in> set question_starters)"

definition is_definitely_question :: "unicode_db \<Rightarrow> pystr \<Rightarrow> bool" where
  "is_definitely_question U lower_ocr_text =
     (let first_word = first_word_of U lower_ocr_text
      in ends_with_question_variant lower_ocr_text \<or>
         (first_word \<in> set question_starters \<and>
          \<not> (first_word = py ''solve'' \<and> cp CHR ''='' \<in> set lower_ocr_text)))"

definition has_equals_sign :: "pystr \<Rightarrow> bool" where
  "has_equals_sign ocr_text = (cp CHR ''='' \<in> set ocr_text)"

definition has_math_operators :: "pystr \<Rightarrow> bool" where
  "has_math_operators ocr_text = list_ex (\<lambda>op. op \<in> set ocr_text) (py ''+-*/^'')"

definition has_digits :: "unicode_db \<Rightarrow> pystr \<Rightarrow> bool" where
  "has_digits U ocr_text = list_ex (isdigit U) ocr_text"

definition has_alpha :: "unicode_db \<Rightarrow> pystr \<Rightarrow> bool" where
  "has_alpha U ocr_text = list_ex (isalpha U) ocr_text"

definition explicit_math_phrases :: "pystr list" where
  "explicit_math_phrases = map py
     [''solve for'', ''find x'', ''find the value of x'', ''derivative of'',
      ''integral of'', ''factorize'', ''simplify:'']"

definition has_explicit_math_phrase :: "pystr \<Rightarrow> bool" where
  "has_explicit_math_phrase lower_ocr_text =
     list_ex (\<lambda>phrase. str_contains phrase lower_ocr_text) explicit_math_phrases"

definition num_math_symbols :: "unicode_db \<Rightarrow> pystr \<Rightarrow> nat" where
  "num_math_symbols U ocr_text =
     length (filter (\<lambda>char. isdigit U char \<or> char \<in> set (py ''+-*/=^().'')) ocr_text)"

definition num_alpha_symbols :: "unicode_db \<Rightarrow> pystr \<Rightarrow> nat" where
  "num_alpha_symbols U ocr_text = length (filter (isalpha U) ocr_text)"

text \<open>
  Lines 116 to 121: the structural rule, an outer condition on the features and an inner
  one on the share of math symbols.
\<close>

definition structural_math_check :: "unicode_db \<Rightarrow> pystr \<Rightarrow> pystr \<Rightarrow> bool" where
  "structural_math_check U ocr_text lower_ocr_text =
     (let first_word = first_word_of U lower_ocr_text
      in ((has_equals_sign ocr_text \<and> has_math_operators ocr_text) \<or>
          (first_word = py ''solve'' \<and> has_math_operators ocr_text \<and>
           (has_digits U ocr_text \<or> has_alpha U ocr_text))) \<and>
         (real (num_math_symbols U ocr_text) > real (num_alpha_symbols U ocr_text) * (3 / 10) \<or>
          num_alpha_symbols U ocr_text < 10 \<or> first_word = py ''solve''))"

text \<open>Lines 126 to 133: digits and an operator, and no character outside the fixed set.\<close>

definition is_pure_arithmetic :: "unicode_db \<Rightarrow> pystr \<Rightarrow> bool" where
  "is_pure_arithmetic U ocr_text =
     (has_digits U ocr_text \<and> has_math_operators ocr_text \<and>
      list_all (\<lambda>char_token. char_token \<in> set (py ''0123456789+-*/^(). '')) ocr_text)"

text \<open>Lines 142 and 143: more than half of all characters are letters, in a text longer than 10.\<close>

definition mostly_alphabetic :: "unicode_db \<Rightarrow> pystr \<Rightarrow> bool" where
  "mostly_alphabetic U ocr_text =
     (real (num_alpha_symbols U ocr_text) > real (length ocr_text) * (1 / 2) \<and>
      10 < length ocr_text)"

text \<open>Lines 150 and 158: the last attempt at \<open>math\<close> in the two fallbacks.\<close>

definition math_recheck :: "unicode_db \<Rightarrow> pystr \<Rightarrow> bool" where
  "math_recheck U ocr_text = (has_math_operators ocr_text \<and> has_digits U ocr_text)"

text \<open>
  Lines 46 to 163, the cascade after the CJK check. A nested \<open>if\<close> without \<open>else\<close>
  falls through to the next rule, which the conjunction of its conditions expresses.
\<close>

definition classify_after_cjk :: "unicode_db \<Rightarrow> pystr \<Rightarrow> problem_type" where
  "classify_after_cjk U ocr_text =
     (let lower_ocr_text = lower U ocr_text in
      if has_very_bad_chars lower_ocr_text then
        (if is_question_like_despite_bad_chars U lower_ocr_text then Text else Visual)
      else if is_definitely_question U lower_ocr_text then Text
      else if has_explicit_math_phrase lower_ocr_text \<and> \<not> has_very_bad_chars lower_ocr_text
        then Math
      else if structural_math_check U ocr_text lower_ocr_text \<and>
              \<not> has_very_bad_chars lower_ocr_text
        then Math
      else if is_pure_arithmetic U ocr_text \<and> 0 < length (str_strip U ocr_text) \<and>
              has_math_operators ocr_text \<and> \<not> has_very_bad_chars lower_ocr_text
        then Math
      else if mostly_alphabetic U ocr_text then Text
      else if length (str_strip U ocr_text) < 15 then
        (if math_recheck U ocr_text \<and> \<not> has_very_bad_chars lower_ocr_text
         then Math else Visual)
      else if has_digits U ocr_text \<or> has_alpha U ocr_text then
        (if math_recheck U ocr_text \<and> \<not> has_very_bad_chars lower_ocr_text
         then Math else Text)
      else Visual)"

text \<open>
  \<open>determine_problem_type(ocr_text, image_obj)\<close>. The image is taken and never read.
  The result is \<open>Inl\<close> an exception or \<open>Inr\<close> the type.
\<close>

definition determine_problem_type :: "unicode_db \<Rightarrow> pystr \<Rightarrow> 'img \<Rightarrow> py_error + problem_type" where
  "determine_problem_type U ocr_text image_obj =
     (if ocr_text = [] \<or> str_isspace U ocr_text then Inr Visual
      else
        let cjk = cjk_char_count U ocr_text;
            non_ws = total_non_whitespace_chars U ocr_text
        in if 5 < non_ws then
             (case py_truediv cjk non_ws of
                Inl e \<Rightarrow> Inl e
              | Inr cjk_ratio \<Rightarrow>
                  if 1 / 2 < cjk_ratio then Inr Text
                  else Inr (classify_after_cjk U ocr_text))
           else Inr (classify_after_cjk U ocr_text))"

text \<open>The condition of lines 41 to 43 under which the CJK rule returns \<open>text\<close>.\<close>

definition cjk_dominant :: "unicode_db \<Rightarrow> pystr \<Rightarrow> bool" where
  "cjk_dominant U ocr_text =
     (5 < total_non_whitespace_chars U ocr_text \<and>
      1 / 2 < real (cjk_char_count U ocr_text) / real (total_non_whitespace_chars U ocr_text))"

text \<open>
  The ratio as the specification words it (section 4.1): the CJK characters among the
  non-whitespace ones, and 0 when there is no non-whitespace character. The source has
  no such function; the definition is there to be compared with the guarded division
  of \<open>determine_problem_type\<close>.
\<close>

definition spec_cjk_ratio :: "unicode_db \<Rightarrow> pystr \<Rightarrow> real" where
  "spec_cjk_ratio U text =
     (let non_whitespace = filter (\<lambda>c. \<not> isspace U c) text
      in if length non_whitespace = 0 then 0
         else real (length (filter is_cjk non_whitespace)) / real (length non_whitespace))"

text \<open>
  Facts of the Unicode database that the classifier's rules lean on beyond ASCII:
  lower-casing neither brings in nor removes one of the four symbols; a digit is
  neither a CJK character nor a letter nor the degree sign; a whitespace character is
  neither a letter nor the degree sign; a text without cased characters is its own
  lower case.
\<close>

definition lower_keeps_symbols :: "unicode_db \<Rightarrow> bool" where
  "lower_keeps_symbols U =
     (\<forall>s. has_very_bad_chars (lower U s) = has_very_bad_chars s)"

definition arithmetic_char :: "unicode_db \<Rightarrow> codepoint \<Rightarrow> bool" where
  "arithmetic_char U c = (isdigit U c \<or> c \<in> set (py ''.+-*/^()'') \<or> isspace U c)"

definition unicode_consistent :: "unicode_db \<Rightarrow> bool" where
  "unicode_consistent U =
     ((\<forall>c. isdigit U c \<longrightarrow> \<not> is_cjk c \<and> \<not> isalpha U c \<and> c \<noteq> 0xB0) \<and>
      (\<forall>c. isspace U c \<longrightarrow> \<not> isalpha U c \<and> c \<noteq> 0xB0) \<and>
      (\<forall>s. list_all (arithmetic_char U) s \<longrightarrow> lower U s = s))"

text \<open>
  The pattern \<open>^\s*[\d\.\+\-\*/\^\(\)\s]+$\<close>: whitespace is in the bracketed class, so a
  text matches when it is not empty and every character is in the class.
\<close>

definition matches_arithmetic_pattern :: "unicode_db \<Rightarrow> pystr \<Rightarrow> bool" where
  "matches_arithmetic_pattern U s = (s \<noteq> [] \<and> list_all (arithmetic_char U) s)"


section \<open>nlp_solver.py: answer_text_question\<close>

text \<open>
  What the function does to the outside, in order: a line printed, the remote backend
  called, the local spaCy pipeline called.
\<close>

datatype event = Print pystr | CallGemini pystr | CallNLP pystr

text \<open>
  The surroundings of the function: the module global \<open>NLP\<close> (\<open>None\<close> when the model
  did not load), \<open>ocr_module.API_KEY\<close>, the network exchange of
  \<open>solve_text_problem_with_gemini\<close> (lines 135 to 200 of ocr_module.py, the strings of
  its exception handlers included), and the local analysis of lines 79 to 165, which
  works on the document the spaCy pipeline returns and may raise.
\<close>

record 'nlp text_env =
  NLP :: "'nlp option"
  API_KEY :: pystr
  gemini_exchange :: "pystr \<Rightarrow> pystr"
  local_nlp_analysis :: "'nlp \<Rightarrow> pystr \<Rightarrow> py_error + pystr"

definition error_marker :: pystr where
  "error_marker = [37679, 35492, 65306]"

definition msg_key_not_set :: pystr where
  "msg_key_not_set = error_marker @ py ''Gemini API '' @
     [37329, 38000, 26410, 35373, 23450, 25110, 20173, 28858, 38928, 35373, 20540, 12290,
      35531, 22312] @ py '' ocr_module.py '' @ [20013, 35373, 23450, 26377, 25928, 30340] @
     py '' API_KEY'' @ [12290]"

definition msg_nothing_available :: pystr where
  "msg_nothing_available = error_marker @ py ''spaCy NLP '' @
     [27169, 22411, 26410, 25104, 21151, 36617, 20837, 65292, 19988] @ py '' Gemini API '' @
     [37329, 38000, 26410, 35373, 23450, 12290, 28961, 27861, 34389, 29702, 25991, 23383,
      21839, 38988, 12290]"

definition msg_nlp_not_loaded :: pystr where
  "msg_nlp_not_loaded = error_marker @ py ''spaCy NLP '' @
     [27169, 22411, 26410, 25104, 21151, 36617, 20837, 12290] @ py ''Gemini API '' @
     [22039, 35430, 22833, 25943, 25110, 26410, 21855, 29992, 12290]"

definition msg_trying_gemini :: pystr where
  "msg_trying_gemini =
     [36039, 35338, 65306, 20597, 28204, 21040, 21487, 33021, 35079, 38620, 30340, 25991,
      23383, 21839, 38988, 65292, 22039, 35430, 20351, 29992] @ py '' Gemini API '' @
     [36914, 34892, 35299, 31572] @ py ''...''"

definition msg_gemini_failed :: "pystr \<Rightarrow> pystr" where
  "msg_gemini_failed gemini_answer =
     [35686, 21578, 65306] @ py ''Gemini API '' @ [34389, 29702, 22833, 25943] @ py '' ('' @
     gemini_answer @ py '')'' @
     [12290, 23559, 22039, 35430, 20351, 29992, 26412, 22320] @ py '' NLP '' @
     [20998, 26512, 12290]"

definition gemini_answer_prefix :: pystr where
  "gemini_answer_prefix = py ''(Gemini AI '' @ [35299, 31572] @ py ''):'' @ [10]"

text \<open>
  \<open>API_KEY and API_KEY not in ["YOUR_GEMINI_API_KEY", "GEMINI_API_KEY"]\<close>, the test
  of line 55; lines 132 of ocr_module.py is its negation.
\<close>

definition api_key_configured :: "pystr \<Rightarrow> bool" where
  "api_key_configured key =
     (key \<noteq> [] \<and> key \<notin> set [py ''YOUR_GEMINI_API_KEY'', py ''GEMINI_API_KEY''])"

definition solve_text_problem_with_gemini :: "'nlp text_env \<Rightarrow> pystr \<Rightarrow> pystr" where
  "solve_text_problem_with_gemini env problem_text =
     (if \<not> api_key_configured (API_KEY env) then msg_key_not_set
      else gemini_exchange env problem_text)"

definition contains_cjk :: "pystr \<Rightarrow> bool" where
  "contains_cjk text = list_ex is_cjk text"

definition should_use_gemini :: "unicode_db \<Rightarrow> 'nlp text_env \<Rightarrow> pystr \<Rightarrow> bool" where
  "should_use_gemini U env text =
     (let contains_digits = list_ex (isdigit U) text;
          is_long_question = (50 < length text)
      in if api_key_configured (API_KEY env) then
           (if contains_cjk text then True
            else if contains_digits \<and> is_long_question then True
            else if 7 < length (str_split U text) then True
            else False)
         else False)"

text \<open>Lines 76 to 165: the local path, taken when the remote one is not, or has failed.\<close>

definition local_path :: "'nlp text_env \<Rightarrow> pystr \<Rightarrow> (py_error + pystr) \<times> event list" where
  "local_path env text =
     (case NLP env of
        None \<Rightarrow> (Inr msg_nlp_not_loaded, [])
      | Some nlp \<Rightarrow> (local_nlp_analysis env nlp text, [CallNLP text]))"

definition answer_text_question ::
  "unicode_db \<Rightarrow> 'nlp text_env \<Rightarrow> pystr \<Rightarrow> (py_error + pystr) \<times> event list" where
  "answer_text_question U env text =
     (if NLP env = None \<and> API_KEY env = [] then (Inr msg_nothing_available, [])
      else if should_use_gemini U env text then
        (let gemini_answer = solve_text_problem_with_gemini env text;
             attempt = [Print msg_trying_gemini, CallGemini text]
         in if \<not> startswith gemini_answer error_marker
            then (Inr (gemini_answer_prefix @ gemini_answer), attempt)
            else (fst (local_path env text),
                  attempt @ [Print (msg_gemini_failed gemini_answer)] @
                  snd (local_path env text)))
      else local_path env text)"


section \<open>Facts about the string operations\<close>

lemma str_replace_append:
  "str_replace old new (a @ b) = str_replace old new a @ str_replace old new b"
  by (simp add: str_replace_def)

lemma str_replace_absent:
  "old \<notin> set s \<Longrightarrow> str_replace old new s = s"
  by (induction s) (auto simp: str_replace_def)

lemma str_replace_keeps_absent:
  "c \<notin> set s \<Longrightarrow> c \<notin> set new \<Longrightarrow> c \<notin> set (str_replace old new s)"
  by (induction s) (auto simp: str_replace_def)

lemma length_str_replace:
  "new \<noteq> [] \<Longrightarrow> length s \<le> length (str_replace old new s)"
proof (induction s)
  case Nil
  then show ?case by (simp add: str_replace_def)
next
  case (Cons c s)
  then have "1 \<le> length new" by (cases new) auto
  with Cons show ?case by (auto simp: str_replace_def)
qed

lemma str_join_empty: "str_join [] ws = concat ws"
proof (induction ws)
  case Nil
  show ?case by simp
next
  case (Cons w ws)
  then show ?case by (cases ws) auto
qed

lemma concat_split_from:
  "concat (split_from U w s) = w @ filter (\<lambda>c. \<not> isspace U c) s"
  by (induction s arbitrary: w) auto

lemma strip_whitespace_filter:
  "strip_whitespace U s = filter (\<lambda>c. \<not> isspace U c) s"
  by (simp add: strip_whitespace_def str_split_def str_join_empty concat_split_from)

lemma strip_whitespace_append:
  "strip_whitespace U (a @ b) = strip_whitespace U a @ strip_whitespace U b"
  by (simp add: strip_whitespace_filter)

lemma strip_whitespace_idem:
  "strip_whitespace U (strip_whitespace U s) = strip_whitespace U s"
  by (simp add: strip_whitespace_filter)

lemmas string_defs = py_def cp_def isspace_def isdigit_def isalpha_def lower_def
  ascii_lower_def str_isspace_def str_split_def str_strip_def endswith_def startswith_def

lemmas normalize_defs = solve_equation_normalize_def normalize_side_def
  insert_multiplication_def equality_to_zero_def caret_to_power_def str_replace_def
  strip_whitespace_filter


section \<open>The normalization of an equation\<close>

lemma insert_multiplication_append:
  "insert_multiplication (a @ b) = insert_multiplication a @ insert_multiplication b"
  by (simp add: insert_multiplication_def str_replace_append)

lemma caret_to_power_append:
  "caret_to_power (a @ b) = caret_to_power a @ caret_to_power b"
  by (simp add: caret_to_power_def str_replace_append)

lemma insert_multiplication_keeps_absent:
  "cp CHR ''='' \<notin> set s \<Longrightarrow> cp CHR ''='' \<notin> set (insert_multiplication s)"
  unfolding insert_multiplication_def
  by (intro str_replace_keeps_absent) (simp_all add: py_def cp_def)

lemma inserted_symbols_fixed:
  "insert_multiplication (py ''='') = py ''=''"
  "caret_to_power (py ''-('') = py ''-(''"
  "caret_to_power (py '')'') = py '')''"
  "strip_whitespace U (py ''-('') = py ''-(''"
  "strip_whitespace U (py '')'') = py '')''"
  by (simp_all add: normalize_defs string_defs)

text \<open>
  C1, as the code has it. Take a raw input \<open>L = R\<close> with no further equality sign in
  which every \<open>x\<close> and \<open>X\<close> directly follows a digit, the implied multiplication the
  first rewrite is written for. The four transforms run in this order, and each
  intermediate string is as follows: (1) \<open>*\<close> is inserted between the digit and the
  variable; (2) the equality sign becomes \<open>-(\<close> and \<open>)\<close> is appended; (3) every caret
  becomes \<open>**\<close>; (4) all whitespace is removed. The result is the left side so
  rewritten, then \<open>-(\<close>, then the right side so rewritten, then \<open>)\<close>: the right side
  is parenthesised, the left side is not. Inputs with an \<open>x\<close> elsewhere, or with no
  equality sign, are not spoken of.
\<close>

theorem equality_rewritten_to_difference:
  fixes U :: unicode_db and L R :: pystr
  defines "mul \<equiv> \<lambda>s. concat (map (\<lambda>c. if c = cp CHR ''x'' then py ''*x''
                                       else if c = cp CHR ''X'' then py ''*X'' else [c]) s)"
    and "pow \<equiv> \<lambda>s. concat (map (\<lambda>c. if c = cp CHR ''^'' then py ''**'' else [c]) s)"
    and "sqz \<equiv> \<lambda>s. filter (\<lambda>c. \<not> isspace U c) s"
  assumes "cp CHR ''='' \<notin> set L" and "cp CHR ''='' \<notin> set R"
    and "implied_multiplication_only (L @ py ''='' @ R)"
  shows "insert_multiplication (L @ py ''='' @ R) = mul L @ py ''='' @ mul R
       \<and> equality_to_zero (mul L @ py ''='' @ mul R) = mul L @ py ''-('' @ mul R @ py '')''
       \<and> caret_to_power (mul L @ py ''-('' @ mul R @ py '')'')
           = pow (mul L) @ py ''-('' @ pow (mul R) @ py '')''
       \<and> strip_whitespace U (pow (mul L) @ py ''-('' @ pow (mul R) @ py '')'')
           = sqz (pow (mul L)) @ py ''-('' @ sqz (pow (mul R)) @ py '')''
       \<and> solve_equation_normalize U (L @ py ''='' @ R)
           = sqz (pow (mul L)) @ py ''-('' @ sqz (pow (mul R)) @ py '')''"
proof -
  have M: "insert_multiplication s = mul s" for s
    by (induction s) (simp_all add: insert_multiplication_def str_replace_def mul_def py_def cp_def)
  have P: "caret_to_power s = pow s" for s
    by (simp add: caret_to_power_def str_replace_def pow_def)
  have W: "strip_whitespace U s = sqz s" for s
    by (simp add: strip_whitespace_filter sqz_def)
  have s1: "insert_multiplication (L @ py ''='' @ R) = mul L @ py ''='' @ mul R"
    using insert_multiplication_append inserted_symbols_fixed(1) by (simp add: M [symmetric])
  have "cp CHR ''='' \<notin> set (mul L)" "cp CHR ''='' \<notin> set (mul R)"
    using assms(4,5) insert_multiplication_keeps_absent by (simp_all add: M [symmetric])
  then have s2: "equality_to_zero (mul L @ py ''='' @ mul R)
                   = mul L @ py ''-('' @ mul R @ py '')''"
    by (simp add: equality_to_zero_def str_replace_append str_replace_absent)
       (simp add: str_replace_def py_def)
  have s3: "caret_to_power (mul L @ py ''-('' @ mul R @ py '')'')
              = pow (mul L) @ py ''-('' @ pow (mul R) @ py '')''"
    using caret_to_power_append inserted_symbols_fixed(2,3) by (simp add: P [symmetric])
  have s4: "strip_whitespace U (pow (mul L) @ py ''-('' @ pow (mul R) @ py '')'')
              = sqz (pow (mul L)) @ py ''-('' @ sqz (pow (mul R)) @ py '')''"
    using strip_whitespace_append inserted_symbols_fixed(4,5) by (simp add: W [symmetric])
  have "solve_equation_normalize U (L @ py ''='' @ R)
          = sqz (pow (mul L)) @ py ''-('' @ sqz (pow (mul R)) @ py '')''"
    by (simp add: solve_equation_normalize_def s1 s2 s3 s4)
  with s1 s2 s3 s4 show ?thesis by blast
qed

theorem equality_rewritten_to_difference_witness:
  "cp CHR ''='' \<notin> set (py ''3x^2 '') \<and> cp CHR ''='' \<notin> set (py '' 12'')
   \<and> implied_multiplication_only (py ''3x^2 = 12'')
   \<and> solve_equation_normalize ascii_db (py ''3x^2 = 12'') = py ''3*x**2-(12)''"
  using equality_rewritten_to_difference [where L = "py ''3x^2 ''" and R = "py '' 12''"
      and U = ascii_db]
  by (simp add: implied_multiplication_only_def string_defs)

text \<open>
  C1 as stated fails twice. The input \<open>1=2\<close> becomes \<open>1-(2)\<close> and not \<open>(1)-(2)\<close>. The
  input \<open>2x-4\<close>, which has no equality sign, becomes \<open>2*x-4)\<close>: the closing parenthesis
  is appended all the same, and transforms (1), (3), (4) produce none.
\<close>

theorem normalize_form_counterexample:
  "solve_equation_normalize ascii_db (py ''1=2'') = py ''1-(2)''
   \<and> solve_equation_normalize ascii_db (py ''1=2'') \<noteq> py ''(1)-(2)''
   \<and> cp CHR ''='' \<notin> set (py ''2x-4'')
   \<and> solve_equation_normalize ascii_db (py ''2x-4'') = py ''2*x-4)''
   \<and> normalize_side ascii_db (py ''2x-4'') = py ''2*x-4''
   \<and> cp CHR '')'' \<in> set (solve_equation_normalize ascii_db (py ''2x-4''))
   \<and> cp CHR '')'' \<notin> set (normalize_side ascii_db (py ''2x-4''))"
  by (simp add: normalize_defs string_defs)

text \<open>
  C2 at the canonical input \<open>2*x-4\<close> (explicit multiplication, no caret, no equality
  sign, no whitespace): one pass gives \<open>2**x-4)\<close>, a second pass \<open>2***x-4))\<close>, so the
  second pass changes the result of the first.
\<close>

theorem normalize_twice_differs:
  "solve_equation_normalize ascii_db (py ''2*x-4'') = py ''2**x-4)''
   \<and> solve_equation_normalize ascii_db (solve_equation_normalize ascii_db (py ''2*x-4''))
       = py ''2***x-4))''
   \<and> solve_equation_normalize ascii_db (solve_equation_normalize ascii_db (py ''2*x-4''))
       \<noteq> solve_equation_normalize ascii_db (py ''2*x-4'')"
  by (simp add: normalize_defs string_defs)

text \<open>
  No input at all is a fixed point of a second pass: the result of a pass has no
  whitespace left to remove, and the next pass appends one more parenthesis.
\<close>

lemma length_filter_str_replace:
  assumes "P old" and "new \<noteq> []" and "list_all P new"
  shows "length (filter P s) \<le> length (filter P (str_replace old new s))"
proof (induction s)
  case Nil
  show ?case by (simp add: str_replace_def)
next
  case (Cons c s)
  have "filter P new = new" using assms(3) by (simp add: list_all_iff)
  moreover have "1 \<le> length new" using assms(2) by (cases new) auto
  ultimately show ?case using Cons assms(1) by (auto simp: str_replace_def)
qed

lemma solve_equation_normalize_grows:
  "length (strip_whitespace U s) < length (solve_equation_normalize U s)"
proof -
  let ?P = "\<lambda>c. \<not> isspace U c"
  have a: "length (filter ?P s) \<le> length (filter ?P (insert_multiplication s))"
    unfolding insert_multiplication_def
    by (rule order_trans [OF length_filter_str_replace length_filter_str_replace])
       (simp_all add: string_defs)
  have b: "length (filter ?P (insert_multiplication s))
             < length (filter ?P (equality_to_zero (insert_multiplication s)))"
    unfolding equality_to_zero_def
    using length_filter_str_replace [of ?P "cp CHR ''=''" "py ''-(''" "insert_multiplication s"]
    by (simp add: string_defs)
  have c: "length (filter ?P (equality_to_zero (insert_multiplication s)))
             \<le> length (filter ?P (caret_to_power (equality_to_zero (insert_multiplication s))))"
    unfolding caret_to_power_def
    by (rule length_filter_str_replace) (simp_all add: string_defs)
  from a b c show ?thesis
    by (simp add: solve_equation_normalize_def strip_whitespace_filter)
qed

lemma second_pass_never_fixed:
  "solve_equation_normalize U (solve_equation_normalize U s) \<noteq> solve_equation_normalize U s"
proof -
  have "strip_whitespace U (solve_equation_normalize U s) = solve_equation_normalize U s"
    by (simp add: solve_equation_normalize_def strip_whitespace_idem)
  with solve_equation_normalize_grows [of U "solve_equation_normalize U s"]
  show ?thesis by auto
qed


lemmas classifier_defs = determine_problem_type_def classify_after_cjk_def py_truediv_def
  cjk_char_count_def total_non_whitespace_chars_def is_cjk_def has_very_bad_chars_def
  very_bad_chars_def question_starters_def first_word_of_def ends_with_question_variant_def
  is_question_like_despite_bad_chars_def is_definitely_question_def has_equals_sign_def
  has_math_operators_def has_digits_def has_alpha_def explicit_math_phrases_def
  has_explicit_math_phrase_def num_math_symbols_def num_alpha_symbols_def
  structural_math_check_def is_pure_arithmetic_def math_recheck_def mostly_alphabetic_def
  cjk_dominant_def

section \<open>The counting loop and the CJK rule\<close>

lemma cjk_scan_counts:
  "cjk_scan U s (a, b) =
     (a + length (filter (\<lambda>c. \<not> isspace U c \<and> is_cjk c) s),
      b + length (filter (\<lambda>c. \<not> isspace U c) s))"
  by (induction s arbitrary: a b) auto

lemma total_non_whitespace_chars_filter:
  "total_non_whitespace_chars U s = length (filter (\<lambda>c. \<not> isspace U c) s)"
  by (simp add: total_non_whitespace_chars_def cjk_scan_counts)

lemma cjk_char_count_filter:
  "cjk_char_count U s = length (filter is_cjk (filter (\<lambda>c. \<not> isspace U c) s))"
  by (simp add: cjk_char_count_def cjk_scan_counts conj_commute)

lemma no_content_no_count:
  "s = [] \<or> str_isspace U s \<Longrightarrow> total_non_whitespace_chars U s = 0"
  by (auto simp: total_non_whitespace_chars_filter str_isspace_def list_all_iff)

lemma count_gives_content:
  "0 < total_non_whitespace_chars U s \<Longrightarrow> s \<noteq> [] \<and> \<not> str_isspace U s"
  using no_content_no_count [of s U] by auto

text \<open>The function by its three outcomes, with the division carried out.\<close>

lemma determine_problem_type_cases:
  "determine_problem_type U s img =
     (if s = [] \<or> str_isspace U s then Inr Visual
      else if cjk_dominant U s then Inr Text
      else Inr (classify_after_cjk U s))"
  by (simp add: determine_problem_type_def cjk_dominant_def py_truediv_def Let_def)

text \<open>
  C4. A text with more than five non-whitespace characters, more than half of them CJK,
  is \<open>text\<close>, whatever else it contains: nothing but the two counts is assumed.
\<close>

theorem cjk_dominant_is_text:
  assumes "5 < total_non_whitespace_chars U s"
    and "1 / 2 < real (cjk_char_count U s) / real (total_non_whitespace_chars U s)"
  shows "determine_problem_type U s img = Inr Text"
proof -
  from assms(1) have "s \<noteq> [] \<and> \<not> str_isspace U s"
    by (intro count_gives_content) simp
  with assms show ?thesis by (simp add: determine_problem_type_cases cjk_dominant_def)
qed

theorem cjk_dominant_is_text_witness:
  "5 < total_non_whitespace_chars ascii_db ([0x5716, 0x7247, 0x4E2D, 0x6709, 0x4E00, 0x500B, 0x554F, 0x984C] @ py '' 1+2=3:'')
   \<and> 1 / 2 < real (cjk_char_count ascii_db ([0x5716, 0x7247, 0x4E2D, 0x6709, 0x4E00, 0x500B, 0x554F, 0x984C] @ py '' 1+2=3:''))
             / real (total_non_whitespace_chars ascii_db ([0x5716, 0x7247, 0x4E2D, 0x6709, 0x4E00, 0x500B, 0x554F, 0x984C] @ py '' 1+2=3:''))
   \<and> determine_problem_type ascii_db ([0x5716, 0x7247, 0x4E2D, 0x6709, 0x4E00, 0x500B, 0x554F, 0x984C] @ py '' 1+2=3:'') ()
       = Inr Text"
  using cjk_dominant_is_text [of ascii_db "[0x5716, 0x7247, 0x4E2D, 0x6709, 0x4E00, 0x500B, 0x554F, 0x984C] @ py '' 1+2=3:''" "()"]
  by (simp add: string_defs classifier_defs ascii_db_def)

text \<open>
  C9. The ratio of the specification is 0 on the empty and on a whitespace-only text.
  The code returns \<open>visual\<close> on both before it counts; it divides only under the guard
  \<open>5 < total_non_whitespace_chars\<close>, where the divisor is positive and the quotient is
  the ratio of the specification; so no input raises ZeroDivisionError, and the rule
  decides as the specification's ratio would.
\<close>

theorem cjk_ratio_never_divides_by_zero:
  "spec_cjk_ratio U [] = 0
   \<and> (str_isspace U s \<longrightarrow> spec_cjk_ratio U s = 0)
   \<and> (s = [] \<or> str_isspace U s \<longrightarrow> determine_problem_type U s img = Inr Visual)
   \<and> (5 < total_non_whitespace_chars U s \<longrightarrow>
        0 < total_non_whitespace_chars U s \<and>
        py_truediv (cjk_char_count U s) (total_non_whitespace_chars U s)
          = Inr (spec_cjk_ratio U s))
   \<and> determine_problem_type U s img \<noteq> Inl ZeroDivisionError
   \<and> determine_problem_type U s img =
        (if s = [] \<or> str_isspace U s then Inr Visual
         else if 5 < total_non_whitespace_chars U s \<and> 1 / 2 < spec_cjk_ratio U s then Inr Text
         else Inr (classify_after_cjk U s))"
proof -
  have ratio: "0 < total_non_whitespace_chars U s \<Longrightarrow>
      spec_cjk_ratio U s = real (cjk_char_count U s) / real (total_non_whitespace_chars U s)"
    by (simp add: spec_cjk_ratio_def Let_def total_non_whitespace_chars_filter
        cjk_char_count_filter)
  have zero: "str_isspace U s \<Longrightarrow> spec_cjk_ratio U s = 0"
    using no_content_no_count [of s U]
    by (simp add: spec_cjk_ratio_def Let_def total_non_whitespace_chars_filter)
  have empty: "spec_cjk_ratio U [] = 0"
    by (simp add: spec_cjk_ratio_def)
  have guarded: "5 < total_non_whitespace_chars U s \<Longrightarrow>
      py_truediv (cjk_char_count U s) (total_non_whitespace_chars U s) = Inr (spec_cjk_ratio U s)"
    using ratio by (simp add: py_truediv_def)
  have cases: "determine_problem_type U s img =
        (if s = [] \<or> str_isspace U s then Inr Visual
         else if 5 < total_non_whitespace_chars U s \<and> 1 / 2 < spec_cjk_ratio U s then Inr Text
         else Inr (classify_after_cjk U s))"
    using ratio by (auto simp: determine_problem_type_cases cjk_dominant_def)
  have noerr: "determine_problem_type U s img \<noteq> Inl ZeroDivisionError"
    by (simp add: determine_problem_type_cases)
  from empty zero guarded cases noerr show ?thesis
    by (auto simp: determine_problem_type_cases)
qed

theorem cjk_ratio_never_divides_by_zero_witness:
  "str_isspace ascii_db (py ''   '')
   \<and> spec_cjk_ratio ascii_db (py ''   '') = 0
   \<and> determine_problem_type ascii_db (py ''   '') () = Inr Visual
   \<and> 5 < total_non_whitespace_chars ascii_db (py ''abcdef'')
   \<and> py_truediv (cjk_char_count ascii_db (py ''abcdef'')) (total_non_whitespace_chars ascii_db (py ''abcdef'')) = Inr 0"
  using cjk_ratio_never_divides_by_zero [of ascii_db "py ''   ''" "()"]
    cjk_ratio_never_divides_by_zero [of ascii_db "py ''abcdef''" "()"]
  by (simp add: string_defs classifier_defs spec_cjk_ratio_def)


section \<open>The rules that need an operator\<close>

lemma no_operator_no_math_rule:
  assumes "\<not> has_math_operators s"
  shows "\<not> structural_math_check U s l" and "\<not> is_pure_arithmetic U s"
    and "\<not> math_recheck U s"
  using assms
  by (simp_all add: structural_math_check_def is_pure_arithmetic_def math_recheck_def Let_def)

text \<open>
  C10. The equality sign is no operator for the classifier. In a text with digits and
  \<open>=\<close> and none of \<open>+ - * / ^\<close>, the structural rule, the pure-arithmetic rule and
  the re-check of the two fallbacks are all off, so \<open>math\<close> can only come from an
  explicit phrase; and \<open>solve x=2\<close> is \<open>visual\<close> for every image argument and every
  Unicode table.
\<close>

theorem equality_sign_is_no_operator:
  assumes "has_digits U s" and "has_equals_sign s" and "\<not> has_math_operators s"
  shows "\<not> structural_math_check U s (lower U s)
         \<and> \<not> is_pure_arithmetic U s
         \<and> \<not> math_recheck U s
         \<and> (determine_problem_type U s img = Inr Math \<longrightarrow>
              has_explicit_math_phrase (lower U s))
         \<and> determine_problem_type U (py ''solve x=2'') img = Inr Visual"
proof -
  note no = no_operator_no_math_rule [OF assms(3), of U]
  have "determine_problem_type U s img = Inr Math \<Longrightarrow> has_explicit_math_phrase (lower U s)"
    using no
    by (auto simp: determine_problem_type_cases classify_after_cjk_def Let_def
        split: if_splits)
  moreover have "determine_problem_type U (py ''solve x=2'') img = Inr Visual"
    by (simp add: string_defs classifier_defs)
  ultimately show ?thesis using no by blast
qed

theorem equality_sign_is_no_operator_witness:
  "has_digits ascii_db (py ''x=2'') \<and> has_equals_sign (py ''x=2'')
   \<and> \<not> has_math_operators (py ''x=2'')
   \<and> \<not> structural_math_check ascii_db (py ''x=2'') (lower ascii_db (py ''x=2''))
   \<and> \<not> is_pure_arithmetic ascii_db (py ''x=2'')
   \<and> \<not> math_recheck ascii_db (py ''x=2'')
   \<and> determine_problem_type ascii_db (py ''x=2'') () = Inr Visual
   \<and> determine_problem_type ascii_db (py ''solve x=2'') () = Inr Visual"
  using equality_sign_is_no_operator [of ascii_db "py ''x=2''" "()"]
  by (simp add: string_defs classifier_defs)

section \<open>The final fallback\<close>

text \<open>
  C3, as the code has it. A text that reaches the final fallback (not empty, not only
  whitespace, not CJK-dominant, no forbidden symbol, no question, no math rule, not
  mostly alphabetic, trimmed length at least 15) is, when it has a digit or a letter,
  \<open>math\<close> if it has an operator and a digit and \<open>text\<close> if not; with neither digit
  nor letter it is \<open>visual\<close>.
\<close>

theorem final_fallback:
  assumes "s \<noteq> []" and "\<not> str_isspace U s"
    and "\<not> cjk_dominant U s"
    and "\<not> has_very_bad_chars (lower U s)"
    and "\<not> is_definitely_question U (lower U s)"
    and "\<not> has_explicit_math_phrase (lower U s)"
    and "\<not> structural_math_check U s (lower U s)"
    and "\<not> is_pure_arithmetic U s"
    and "\<not> mostly_alphabetic U s"
    and "15 \<le> length (str_strip U s)"
  shows "determine_problem_type U s img =
           Inr (if has_digits U s \<or> has_alpha U s
                then (if has_math_operators s \<and> has_digits U s then Math else Text)
                else Visual)"
  using assms
  by (simp add: determine_problem_type_cases classify_after_cjk_def math_recheck_def Let_def)

theorem final_fallback_witness:
  "py ''abc 1+2 ........'' \<noteq> [] \<and> \<not> str_isspace ascii_db (py ''abc 1+2 ........'')
   \<and> \<not> cjk_dominant ascii_db (py ''abc 1+2 ........'')
   \<and> \<not> has_very_bad_chars (lower ascii_db (py ''abc 1+2 ........''))
   \<and> \<not> is_definitely_question ascii_db (lower ascii_db (py ''abc 1+2 ........''))
   \<and> \<not> has_explicit_math_phrase (lower ascii_db (py ''abc 1+2 ........''))
   \<and> \<not> structural_math_check ascii_db (py ''abc 1+2 ........'')
          (lower ascii_db (py ''abc 1+2 ........''))
   \<and> \<not> is_pure_arithmetic ascii_db (py ''abc 1+2 ........'')
   \<and> \<not> mostly_alphabetic ascii_db (py ''abc 1+2 ........'')
   \<and> 15 \<le> length (str_strip ascii_db (py ''abc 1+2 ........''))
   \<and> has_digits ascii_db (py ''abc 1+2 ........'')
   \<and> has_math_operators (py ''abc 1+2 ........'')
   \<and> determine_problem_type ascii_db (py ''abc 1+2 ........'') () = Inr Math"
  using final_fallback [of "py ''abc 1+2 ........''" ascii_db "()"]
  by (simp add: string_defs classifier_defs)

text \<open>
  C3 as stated says \<open>text\<close> for a text with neither digit nor letter. Fifteen hyphens
  reach the final fallback and are \<open>visual\<close>.
\<close>

theorem final_fallback_counterexample:
  "py ''---------------'' \<noteq> [] \<and> \<not> str_isspace ascii_db (py ''---------------'')
   \<and> \<not> cjk_dominant ascii_db (py ''---------------'')
   \<and> \<not> has_very_bad_chars (lower ascii_db (py ''---------------''))
   \<and> \<not> is_definitely_question ascii_db (lower ascii_db (py ''---------------''))
   \<and> \<not> has_explicit_math_phrase (lower ascii_db (py ''---------------''))
   \<and> \<not> structural_math_check ascii_db (py ''---------------'')
          (lower ascii_db (py ''---------------''))
   \<and> \<not> is_pure_arithmetic ascii_db (py ''---------------'')
   \<and> \<not> mostly_alphabetic ascii_db (py ''---------------'')
   \<and> 15 \<le> length (str_strip ascii_db (py ''---------------''))
   \<and> \<not> has_digits ascii_db (py ''---------------'')
   \<and> \<not> has_alpha ascii_db (py ''---------------'')
   \<and> determine_problem_type ascii_db (py ''---------------'') () = Inr Visual
   \<and> determine_problem_type ascii_db (py ''---------------'') () \<noteq> Inr Text"
  by (simp add: string_defs classifier_defs)

section \<open>The forbidden symbols\<close>

lemma ascii_lower_symbol:
  "c \<in> set very_bad_chars \<Longrightarrow> (ascii_lower d = c) = (d = c)"
  by (auto simp: very_bad_chars_def ascii_lower_def cp_def)

lemma ascii_lower_image_symbol:
  assumes "c \<in> set very_bad_chars"
  shows "(c \<in> ascii_lower ` set s) = (c \<in> set s)"
proof
  assume "c \<in> ascii_lower ` set s"
  then obtain d where d: "d \<in> set s" "ascii_lower d = c" by auto
  with ascii_lower_symbol [OF assms, of d] show "c \<in> set s" by simp
next
  assume "c \<in> set s"
  moreover have "ascii_lower c = c" using ascii_lower_symbol [OF assms, of c] by simp
  ultimately show "c \<in> ascii_lower ` set s" by force
qed

lemma has_very_bad_chars_ascii_lower:
  "has_very_bad_chars (map ascii_lower s) = has_very_bad_chars s"
  by (simp add: has_very_bad_chars_def list_ex_iff ascii_lower_image_symbol cong: bex_cong)

lemma lower_keeps_symbols_ascii: "lower_keeps_symbols ascii_db"
  by (simp add: lower_keeps_symbols_def lower_def ascii_db_def has_very_bad_chars_ascii_lower)

text \<open>
  C5, as the code has it. A text that is not empty, not only whitespace, contains one of
  the four symbols and is not question-shaped is \<open>visual\<close>, unless it is CJK-dominant:
  the CJK rule comes first and makes it \<open>text\<close>. It is never \<open>math\<close>.
\<close>

theorem forbidden_symbol_is_visual:
  assumes "lower_keeps_symbols U"
    and "s \<noteq> []" and "\<not> str_isspace U s"
    and "has_very_bad_chars s"
    and "\<not> is_question_like_despite_bad_chars U (lower U s)"
  shows "determine_problem_type U s img =
           Inr (if cjk_dominant U s then Text else Visual)
         \<and> determine_problem_type U s img \<noteq> Inr Math"
proof -
  from assms(1,4) have "has_very_bad_chars (lower U s)"
    by (simp add: lower_keeps_symbols_def)
  with assms(2,3,5) show ?thesis
    by (simp add: determine_problem_type_cases classify_after_cjk_def Let_def)
qed

theorem forbidden_symbol_is_visual_witness:
  "lower_keeps_symbols ascii_db
   \<and> py ''temp: 30'' \<noteq> [] \<and> \<not> str_isspace ascii_db (py ''temp: 30'')
   \<and> has_very_bad_chars (py ''temp: 30'') \<and> \<not> cjk_dominant ascii_db (py ''temp: 30'')
   \<and> \<not> is_question_like_despite_bad_chars ascii_db (lower ascii_db (py ''temp: 30''))
   \<and> determine_problem_type ascii_db (py ''temp: 30'') () = Inr Visual"
  using forbidden_symbol_is_visual [of ascii_db "py ''temp: 30''" "()"] lower_keeps_symbols_ascii
  by (simp add: string_defs classifier_defs)

text \<open>
  C5 as stated fails on a CJK-dominant text: six Han characters, a colon and two more
  Han characters contain a forbidden symbol, are not question-shaped, and are \<open>text\<close>.
\<close>

theorem forbidden_symbol_counterexample:
  "[0x9019, 0x662F, 0x4E00, 0x500B, 0x554F, 0x984C, 0x3A, 0x54C8, 0x54C8] \<noteq> []
   \<and> \<not> str_isspace ascii_db [0x9019, 0x662F, 0x4E00, 0x500B, 0x554F, 0x984C, 0x3A, 0x54C8, 0x54C8]
   \<and> has_very_bad_chars [0x9019, 0x662F, 0x4E00, 0x500B, 0x554F, 0x984C, 0x3A, 0x54C8, 0x54C8]
   \<and> cjk_dominant ascii_db [0x9019, 0x662F, 0x4E00, 0x500B, 0x554F, 0x984C, 0x3A, 0x54C8, 0x54C8]
   \<and> \<not> is_question_like_despite_bad_chars ascii_db
          (lower ascii_db [0x9019, 0x662F, 0x4E00, 0x500B, 0x554F, 0x984C, 0x3A, 0x54C8, 0x54C8])
   \<and> determine_problem_type ascii_db
        [0x9019, 0x662F, 0x4E00, 0x500B, 0x554F, 0x984C, 0x3A, 0x54C8, 0x54C8] () = Inr Text
   \<and> determine_problem_type ascii_db
        [0x9019, 0x662F, 0x4E00, 0x500B, 0x554F, 0x984C, 0x3A, 0x54C8, 0x54C8] () \<noteq> Inr Visual"
  by (simp add: string_defs classifier_defs ascii_db_def)


section \<open>Arithmetic texts\<close>

lemma arithmetic_char_ascii:
  "c < 128 \<Longrightarrow> arithmetic_char U c =
     ((48 \<le> c \<and> c \<le> 57) \<or> c \<in> {46, 43, 45, 42, 47, 94, 40, 41} \<or>
      (9 \<le> c \<and> c \<le> 13) \<or> (28 \<le> c \<and> c \<le> 32))"
  by (auto simp: arithmetic_char_def string_defs)

lemma letter_not_arithmetic:
  "97 \<le> c \<Longrightarrow> c \<le> 122 \<Longrightarrow> \<not> arithmetic_char U c"
  by (simp add: arithmetic_char_ascii)

lemma sign_not_arithmetic:
  "c \<in> {61, 63, 64, 58, 36} \<Longrightarrow> \<not> arithmetic_char U c"
  by (auto simp: arithmetic_char_ascii)

lemma split_from_chars:
  "v \<in> set (split_from U w s) \<Longrightarrow> set v \<subseteq> set w \<union> set s"
  by (induction s arbitrary: w) (fastforce split: if_splits)+

lemma first_word_of_chars: "set (first_word_of U s) \<subseteq> set s"
proof (cases "str_split U s")
  case Nil
  then show ?thesis by (simp add: first_word_of_def)
next
  case (Cons v vs)
  then have "v \<in> set (split_from U [] s)" by (simp add: str_split_def)
  from split_from_chars [OF this] Cons show ?thesis by (simp add: first_word_of_def)
qed

lemma str_contains_chars: "str_contains p s \<Longrightarrow> set p \<subseteq> set s"
proof (induction s)
  case Nil
  then show ?case by simp
next
  case (Cons c cs)
  from Cons.prems have "take (length p) (c # cs) = p \<or> str_contains p cs" by simp
  then show ?case
  proof
    assume "take (length p) (c # cs) = p"
    then have "set p = set (take (length p) (c # cs))" by simp
    then show ?thesis using set_take_subset [of "length p" "c # cs"] by blast
  next
    assume "str_contains p cs"
    with Cons.IH show ?thesis by auto
  qed
qed

lemma endswith_chars: "endswith s p \<Longrightarrow> set p \<subseteq> set s"
proof -
  assume "endswith s p"
  then have "set p = set (drop (length s - length p) s)" by (simp add: endswith_def)
  then show ?thesis using set_drop_subset [of "length s - length p" s] by simp
qed

lemma question_starter_has_letter:
  "w \<in> set question_starters \<Longrightarrow> \<exists>c\<in>set w. 97 \<le> c \<and> c \<le> 122"
  by (auto simp: question_starters_def py_def cp_def)

lemma explicit_math_phrase_has_letter:
  "p \<in> set explicit_math_phrases \<Longrightarrow> \<exists>c\<in>set p. 97 \<le> c \<and> c \<le> 122"
  by (auto simp: explicit_math_phrases_def py_def cp_def)

lemma arithmetic_text_excludes:
  assumes "list_all (arithmetic_char U) s" and "set t \<subseteq> set s"
    and "\<exists>c\<in>set t. \<not> arithmetic_char U c"
  shows False
  using assms by (auto simp: list_all_iff)

lemma arithmetic_text_no_question:
  assumes "list_all (arithmetic_char U) s"
  shows "\<not> ends_with_question_variant s" and "first_word_of U s \<notin> set question_starters"
    and "first_word_of U s \<noteq> py ''solve''"
proof -
  show "\<not> ends_with_question_variant s"
  proof
    assume "ends_with_question_variant s"
    then have "set (py ''?'') \<subseteq> set s \<or> set (py ''?)'') \<subseteq> set s"
      using endswith_chars by (auto simp: ends_with_question_variant_def)
    then have "63 \<in> set s" by (auto simp: py_def cp_def)
    with assms sign_not_arithmetic [of 63 U] show False by (auto simp: list_all_iff)
  qed
  show "first_word_of U s \<notin> set question_starters"
  proof
    assume "first_word_of U s \<in> set question_starters"
    from question_starter_has_letter [OF this]
    obtain c where "c \<in> set (first_word_of U s)" "97 \<le> c" "c \<le> 122" by auto
    with first_word_of_chars [of U s] letter_not_arithmetic [of c U] assms
    show False by (auto simp: list_all_iff)
  qed
  show "first_word_of U s \<noteq> py ''solve''"
  proof
    assume "first_word_of U s = py ''solve''"
    then have "115 \<in> set (first_word_of U s)" by (simp add: py_def cp_def)
    with first_word_of_chars [of U s] letter_not_arithmetic [of 115 U] assms
    show False by (auto simp: list_all_iff)
  qed
qed

lemma arithmetic_text_no_phrase:
  assumes "list_all (arithmetic_char U) s"
  shows "\<not> has_explicit_math_phrase s"
proof
  assume "has_explicit_math_phrase s"
  then obtain p where p: "p \<in> set explicit_math_phrases" "str_contains p s"
    by (auto simp: has_explicit_math_phrase_def list_ex_iff)
  from explicit_math_phrase_has_letter [OF p(1)]
  obtain c where "c \<in> set p" "97 \<le> c" "c \<le> 122" by auto
  with str_contains_chars [OF p(2)] letter_not_arithmetic [of c U] assms
  show False by (auto simp: list_all_iff)
qed

lemma arithmetic_text_no_equals:
  assumes "list_all (arithmetic_char U) s"
  shows "\<not> has_equals_sign s"
  using assms sign_not_arithmetic [of 61 U]
  by (auto simp: has_equals_sign_def list_all_iff cp_def)

lemma arithmetic_text_no_symbol:
  assumes "unicode_consistent U" and "list_all (arithmetic_char U) s"
  shows "\<not> has_very_bad_chars s"
proof
  assume "has_very_bad_chars s"
  then obtain c where c: "c \<in> set s" "c \<in> {176, 64, 58, 36}"
    by (auto simp: has_very_bad_chars_def very_bad_chars_def cp_def)
  from c(1) assms(2) have a: "arithmetic_char U c" by (simp add: list_all_iff)
  show False
  proof (cases "c = 176")
    case True
    with a assms(1) show False
      by (auto simp: arithmetic_char_def unicode_consistent_def py_def cp_def)
  next
    case False
    with c(2) sign_not_arithmetic [of c U] a show False by auto
  qed
qed

lemma arithmetic_text_no_cjk:
  assumes "unicode_consistent U" and "list_all (arithmetic_char U) s"
  shows "cjk_char_count U s = 0"
proof -
  have "\<not> is_cjk c" if "c \<in> set s" "\<not> isspace U c" for c
  proof -
    from that assms(2) have "isdigit U c \<or> c \<in> set (py ''.+-*/^()'')"
      by (auto simp: list_all_iff arithmetic_char_def)
    then show ?thesis
    proof
      assume "isdigit U c"
      with assms(1) show ?thesis by (simp add: unicode_consistent_def)
    next
      assume "c \<in> set (py ''.+-*/^()'')"
      then show ?thesis by (auto simp: py_def cp_def is_cjk_def)
    qed
  qed
  then show ?thesis by (auto simp: cjk_char_count_filter filter_empty_conv)
qed

lemma arithmetic_text_no_letter:
  assumes "unicode_consistent U" and "list_all (arithmetic_char U) s"
  shows "num_alpha_symbols U s = 0"
proof -
  have "\<not> isalpha U c" if "c \<in> set s" for c
  proof -
    from that assms(2) have "isdigit U c \<or> isspace U c \<or> c \<in> set (py ''.+-*/^()'')"
      by (auto simp: list_all_iff arithmetic_char_def)
    with assms(1) show ?thesis
      by (auto simp: unicode_consistent_def py_def cp_def isalpha_def)
  qed
  then show ?thesis by (simp add: num_alpha_symbols_def filter_empty_conv)
qed

lemma operator_is_content:
  assumes "has_math_operators s"
  shows "s \<noteq> []" and "\<not> str_isspace U s"
proof -
  from assms obtain c where c: "c \<in> set s" "c \<in> {43, 45, 42, 47, 94}"
    by (auto simp: has_math_operators_def py_def cp_def)
  then show "s \<noteq> []" by auto
  from c have "\<not> isspace U c" by (auto simp: isspace_def)
  with c(1) show "\<not> str_isspace U s" by (auto simp: str_isspace_def list_all_iff)
qed

text \<open>
  C6. A text that matches \<open>^\s*[\d\.\+\-\*/\^\(\)\s]+$\<close> and contains a digit and one
  of the operators \<open>+ - * / ^\<close> is \<open>math\<close>. Digits and whitespace are those of the
  Unicode table, of which the facts of \<open>unicode_consistent\<close> are assumed; the
  pure-arithmetic rule takes the texts over ASCII digits and the blank, the two
  fallbacks take the others.
\<close>

theorem arithmetic_text_is_math:
  assumes "unicode_consistent U"
    and "matches_arithmetic_pattern U s"
    and "has_digits U s" and "has_math_operators s"
  shows "determine_problem_type U s img = Inr Math"
proof -
  from assms(2) have all: "list_all (arithmetic_char U) s"
    by (simp add: matches_arithmetic_pattern_def)
  from assms(1) all have low: "lower U s = s" by (simp add: unicode_consistent_def)
  note content = operator_is_content(1) [OF assms(4)] operator_is_content(2) [OF assms(4), of U]
  have "cjk_char_count U s = 0" by (rule arithmetic_text_no_cjk [OF assms(1) all])
  then have cjk: "\<not> cjk_dominant U s" by (simp add: cjk_dominant_def)
  have sym: "\<not> has_very_bad_chars s" by (rule arithmetic_text_no_symbol [OF assms(1) all])
  have quest: "\<not> is_definitely_question U s"
    using arithmetic_text_no_question [OF all] by (simp add: is_definitely_question_def)
  have phrase: "\<not> has_explicit_math_phrase s" by (rule arithmetic_text_no_phrase [OF all])
  have struct: "\<not> structural_math_check U s s"
    using arithmetic_text_no_question(3) [OF all] arithmetic_text_no_equals [OF all]
    by (simp add: structural_math_check_def Let_def)
  have "num_alpha_symbols U s = 0" by (rule arithmetic_text_no_letter [OF assms(1) all])
  then have alpha: "\<not> mostly_alphabetic U s" by (simp add: mostly_alphabetic_def)
  have recheck: "math_recheck U s" using assms(3,4) by (simp add: math_recheck_def)
  have "classify_after_cjk U s = Math"
    using sym quest phrase struct alpha recheck assms(3)
    by (simp add: classify_after_cjk_def low)
  with content cjk show ?thesis by (simp add: determine_problem_type_cases)
qed

lemma unicode_consistent_ascii: "unicode_consistent ascii_db"
proof -
  have d: "isdigit ascii_db c \<Longrightarrow> \<not> is_cjk c \<and> \<not> isalpha ascii_db c \<and> c \<noteq> 0xB0" for c
    by (auto simp: isdigit_def isalpha_def is_cjk_def ascii_db_def split: if_splits)
  have w: "isspace ascii_db c \<Longrightarrow> \<not> isalpha ascii_db c \<and> c \<noteq> 0xB0" for c
    by (auto simp: isspace_def isalpha_def ascii_db_def split: if_splits)
  have l: "lower ascii_db s = s" if "list_all (arithmetic_char ascii_db) s" for s
  proof (cases "list_all (\<lambda>c. c < 128) s")
    case True
    have "ascii_lower c = c" if "c \<in> set s" for c
    proof -
      from that True \<open>list_all (arithmetic_char ascii_db) s\<close>
      have "c < 128" "arithmetic_char ascii_db c" by (auto simp: list_all_iff)
      then show ?thesis by (auto simp: arithmetic_char_ascii ascii_lower_def)
    qed
    then have "map ascii_lower s = s" by (simp add: map_idI)
    with True show ?thesis by (simp add: lower_def)
  next
    case False
    then show ?thesis by (simp add: lower_def ascii_db_def)
  qed
  from d w l show ?thesis unfolding unicode_consistent_def by blast
qed

theorem arithmetic_text_is_math_witness:
  "unicode_consistent ascii_db
   \<and> matches_arithmetic_pattern ascii_db (py '' (10 / 5) + 2.5^2'')
   \<and> has_digits ascii_db (py '' (10 / 5) + 2.5^2'')
   \<and> has_math_operators (py '' (10 / 5) + 2.5^2'')
   \<and> determine_problem_type ascii_db (py '' (10 / 5) + 2.5^2'') () = Inr Math"
  using arithmetic_text_is_math [of ascii_db "py '' (10 / 5) + 2.5^2''" "()"]
    unicode_consistent_ascii
  by (simp add: string_defs matches_arithmetic_pattern_def arithmetic_char_def
      has_digits_def has_math_operators_def)


section \<open>The remote backend and the local fallback\<close>

lemmas router_defs = answer_text_question_def should_use_gemini_def local_path_def
  solve_text_problem_with_gemini_def api_key_configured_def contains_cjk_def
  error_marker_def msg_key_not_set_def msg_nothing_available_def msg_nlp_not_loaded_def
  msg_trying_gemini_def msg_gemini_failed_def gemini_answer_prefix_def

lemma should_use_gemini_iff:
  "should_use_gemini U env text =
     (api_key_configured (API_KEY env) \<and>
      (contains_cjk text \<or> (has_digits U text \<and> 50 < length text) \<or>
       7 < length (str_split U text)))"
  by (auto simp: should_use_gemini_def has_digits_def Let_def)

lemma configured_key_not_empty: "api_key_configured key \<Longrightarrow> key \<noteq> []"
  by (simp add: api_key_configured_def)

lemma local_path_events: "CallGemini text \<notin> set (snd (local_path env text))"
  by (simp add: local_path_def split: option.splits)

lemma remote_attempt_iff:
  "(CallGemini text \<in> set (snd (answer_text_question U env text)))
     = should_use_gemini U env text"
proof (cases "should_use_gemini U env text")
  case True
  then have "API_KEY env \<noteq> []"
    by (simp add: should_use_gemini_iff configured_key_not_empty)
  with True show ?thesis by (simp add: answer_text_question_def Let_def)
next
  case False
  then show ?thesis by (simp add: answer_text_question_def local_path_events)
qed

text \<open>
  C7, as the code has it. The remote backend is called exactly when the key is
  configured (not empty, none of the two placeholders) and the text contains a CJK
  character, or contains a digit and is longer than 50, or has more than 7 words. When
  it is called, the call is the first thing the function does after announcing it, so
  before any local analysis. When the key is not configured nothing is printed and
  nothing is called but the local pipeline, whose result is returned if it is loaded.
\<close>

theorem remote_attempted_when_configured:
  "(CallGemini text \<in> set (snd (answer_text_question U env text)))
     = (api_key_configured (API_KEY env) \<and>
        (contains_cjk text \<or> (has_digits U text \<and> 50 < length text) \<or>
         7 < length (str_split U text)))
   \<and> (CallGemini text \<in> set (snd (answer_text_question U env text)) \<longrightarrow>
        take 2 (snd (answer_text_question U env text))
          = [Print msg_trying_gemini, CallGemini text])
   \<and> (\<not> api_key_configured (API_KEY env) \<longrightarrow>
        snd (answer_text_question U env text)
          = (case NLP env of None \<Rightarrow> [] | Some nlp \<Rightarrow> [CallNLP text])
        \<and> (\<forall>nlp. NLP env = Some nlp \<longrightarrow>
              fst (answer_text_question U env text) = local_nlp_analysis env nlp text))"
proof -
  have first: "take 2 (snd (answer_text_question U env text))
                 = [Print msg_trying_gemini, CallGemini text]"
    if "should_use_gemini U env text"
  proof -
    from that have "API_KEY env \<noteq> []"
      by (simp add: should_use_gemini_iff configured_key_not_empty)
    with that show ?thesis by (simp add: answer_text_question_def Let_def)
  qed
  have skipped: "answer_text_question U env text =
      (if NLP env = None \<and> API_KEY env = [] then (Inr msg_nothing_available, [])
       else local_path env text)"
    if "\<not> api_key_configured (API_KEY env)"
    using that by (simp add: answer_text_question_def should_use_gemini_iff)
  have quiet: "snd (answer_text_question U env text)
                 = (case NLP env of None \<Rightarrow> [] | Some nlp \<Rightarrow> [CallNLP text])"
    if "\<not> api_key_configured (API_KEY env)"
    using skipped [OF that] by (simp add: local_path_def split: option.splits)
  have answer: "fst (answer_text_question U env text) = local_nlp_analysis env nlp text"
    if "\<not> api_key_configured (API_KEY env)" "NLP env = Some nlp" for nlp
    using skipped [OF that(1)] that(2) by (simp add: local_path_def)
  from first quiet answer show ?thesis
    by (simp add: remote_attempt_iff should_use_gemini_iff)
qed

theorem remote_attempted_when_configured_witness:
  "api_key_configured (py ''key'')
   \<and> contains_cjk (py ''what is '' @ [0x4E2D])
   \<and> snd (answer_text_question ascii_db
        \<lparr>NLP = Some (), API_KEY = py ''key'', gemini_exchange = (\<lambda>t. py ''42''),
         local_nlp_analysis = (\<lambda>n t. Inr (py ''local''))\<rparr> (py ''what is '' @ [0x4E2D]))
       = [Print msg_trying_gemini, CallGemini (py ''what is '' @ [0x4E2D])]
   \<and> \<not> api_key_configured (py ''GEMINI_API_KEY'')
   \<and> answer_text_question ascii_db
        \<lparr>NLP = Some (), API_KEY = py ''GEMINI_API_KEY'', gemini_exchange = (\<lambda>t. py ''42''),
         local_nlp_analysis = (\<lambda>n t. Inr (py ''local''))\<rparr> (py ''what is '' @ [0x4E2D])
       = (Inr (py ''local''), [CallNLP (py ''what is '' @ [0x4E2D])])"
  using remote_attempted_when_configured [of "py ''what is '' @ [0x4E2D]" ascii_db
      "\<lparr>NLP = Some (), API_KEY = py ''key'', gemini_exchange = (\<lambda>t. py ''42''),
        local_nlp_analysis = (\<lambda>n t. Inr (py ''local''))\<rparr>"]
    remote_attempted_when_configured [of "py ''what is '' @ [0x4E2D]" ascii_db
      "\<lparr>NLP = Some (), API_KEY = py ''GEMINI_API_KEY'', gemini_exchange = (\<lambda>t. py ''42''),
        local_nlp_analysis = (\<lambda>n t. Inr (py ''local''))\<rparr>"]
  by (simp add: router_defs string_defs is_cjk_def)

text \<open>
  C7 as stated asks for a CJK-dominant text. \<open>what is\<close> followed by one Han character
  is classified \<open>text\<close>, is not CJK-dominant (one CJK character among seven), has no
  digit and three words, and the configured backend is called on it.
\<close>

theorem remote_attempt_counterexample:
  "determine_problem_type ascii_db (py ''what is '' @ [0x4E2D]) () = Inr Text
   \<and> \<not> cjk_dominant ascii_db (py ''what is '' @ [0x4E2D])
   \<and> \<not> (has_digits ascii_db (py ''what is '' @ [0x4E2D]) \<and> 50 < length (py ''what is '' @ [0x4E2D]))
   \<and> \<not> 7 < length (str_split ascii_db (py ''what is '' @ [0x4E2D]))
   \<and> api_key_configured (py ''key'')
   \<and> CallGemini (py ''what is '' @ [0x4E2D]) \<in> set (snd (answer_text_question ascii_db
        \<lparr>NLP = Some (), API_KEY = py ''key'', gemini_exchange = (\<lambda>t. py ''42''),
         local_nlp_analysis = (\<lambda>n t. Inr (py ''local''))\<rparr> (py ''what is '' @ [0x4E2D])))"
  by (simp add: router_defs string_defs classifier_defs ascii_db_def)

text \<open>
  C8. When the remote backend has been called and its response begins with the error
  marker, the response is not returned: the function warns and takes the local path.
  With the local model loaded the result is that of the local analysis, called after
  the remote attempt; with no local model it is the one fixed error string, returned
  as a value.
\<close>

theorem remote_failure_falls_back:
  assumes "CallGemini text \<in> set (snd (answer_text_question U env text))"
    and "startswith (solve_text_problem_with_gemini env text) error_marker"
  shows "answer_text_question U env text =
           (case NLP env of
              None \<Rightarrow> (Inr msg_nlp_not_loaded,
                        [Print msg_trying_gemini, CallGemini text,
                         Print (msg_gemini_failed (solve_text_problem_with_gemini env text))])
            | Some nlp \<Rightarrow> (local_nlp_analysis env nlp text,
                        [Print msg_trying_gemini, CallGemini text,
                         Print (msg_gemini_failed (solve_text_problem_with_gemini env text)),
                         CallNLP text]))
         \<and> (NLP env = None \<longrightarrow>
              fst (answer_text_question U env text)
                \<noteq> Inr (gemini_answer_prefix @ solve_text_problem_with_gemini env text))"
proof -
  from assms(1) have use: "should_use_gemini U env text" by (simp add: remote_attempt_iff)
  then have "API_KEY env \<noteq> []"
    by (simp add: should_use_gemini_iff configured_key_not_empty)
  with use assms(2) have eq: "answer_text_question U env text =
      (fst (local_path env text),
       [Print msg_trying_gemini, CallGemini text,
        Print (msg_gemini_failed (solve_text_problem_with_gemini env text))]
       @ snd (local_path env text))"
    by (simp add: answer_text_question_def Let_def)
  have "msg_nlp_not_loaded \<noteq> gemini_answer_prefix @ g" for g
    by (simp add: msg_nlp_not_loaded_def gemini_answer_prefix_def error_marker_def py_def cp_def)
  with eq show ?thesis by (simp add: local_path_def split: option.splits)
qed

theorem remote_failure_falls_back_witness:
  "startswith (error_marker @ py ''timeout'') error_marker
   \<and> answer_text_question ascii_db
        \<lparr>NLP = None, API_KEY = py ''key'',
         gemini_exchange = (\<lambda>t. error_marker @ py ''timeout''),
         local_nlp_analysis = (\<lambda>n::unit. \<lambda>t. Inr (py ''local''))\<rparr> (py ''what is '' @ [0x4E2D])
       = (Inr msg_nlp_not_loaded,
          [Print msg_trying_gemini, CallGemini (py ''what is '' @ [0x4E2D]),
           Print (msg_gemini_failed (error_marker @ py ''timeout''))])"
  using remote_failure_falls_back [of "py ''what is '' @ [0x4E2D]" ascii_db
      "\<lparr>NLP = None, API_KEY = py ''key'',
        gemini_exchange = (\<lambda>t. error_marker @ py ''timeout''),
        local_nlp_analysis = (\<lambda>n::unit. \<lambda>t. Inr (py ''local''))\<rparr>"]
  by (simp add: router_defs string_defs is_cjk_def)

end
